theory Spec2Isabelle
  imports Main
begin

section \<open>Python values used by \<open>datasets/biaobei48000.py\<close>\<close>

text \<open>
  A Python 3 \<open>str\<close> is a sequence of Unicode code points, so a string is a list of
  natural numbers (the transcription file holds Chinese text, which 8-bit characters
  cannot hold). \<open>lit\<close> turns an ASCII literal of the source into such a string.
\<close>

type_synonym pystr = "nat list"

definition lit :: "string \<Rightarrow> pystr" where
  "lit s = map of_char s"

text \<open>Exceptions are values; \<open>Raised n\<close> is any exception of a collaborator.\<close>

datatype error = IndexError | ValueError | OSError | Raised nat

text \<open>
  \<open>str.isspace\<close> for one code point, as CPython's \<open>_PyUnicode_IsWhitespace\<close> lists
  them: U+0009..U+000D, U+001C..U+0020, U+0085, U+00A0, U+1680, U+2000..U+200A,
  U+2028, U+2029, U+202F, U+205F, U+3000.
\<close>

definition isspace :: "nat \<Rightarrow> bool" where
  "isspace c =
     ((9 \<le> c \<and> c \<le> 13) \<or> (28 \<le> c \<and> c \<le> 32) \<or> c = 133 \<or> c = 160 \<or> c = 5760 \<or>
      (8192 \<le> c \<and> c \<le> 8202) \<or> c = 8232 \<or> c = 8233 \<or> c = 8239 \<or> c = 8287 \<or>
      c = 12288)"

text \<open>\<open>s.strip()\<close>: leading and trailing whitespace removed.\<close>

definition strip :: "pystr \<Rightarrow> pystr" where
  "strip s = rev (dropWhile isspace (rev (dropWhile isspace s)))"

text \<open>
  \<open>s.split(sep)\<close> for a one-character separator: the pieces between the occurrences of
  \<open>sep\<close>; never the empty list.
\<close>

fun str_split :: "nat \<Rightarrow> pystr \<Rightarrow> pystr list" where
  "str_split sep [] = [[]]"
| "str_split sep (c # cs) =
     (if c = sep then [] # str_split sep cs
      else (case str_split sep cs of
              [] \<Rightarrow> [[c]]
            | w # ws \<Rightarrow> (c # w) # ws))"

text \<open>\<open>xs[i]\<close>: negative indices count from the end, out of range raises IndexError.\<close>

definition getitem :: "'a list \<Rightarrow> int \<Rightarrow> error + 'a" where
  "getitem xs i =
     (if 0 \<le> i
      then (if nat i < length xs then Inr (xs ! nat i) else Inl IndexError)
      else (if nat (- i) \<le> length xs then Inr (xs ! (length xs - nat (- i)))
            else Inl IndexError))"

text \<open>
  An open text file is the text not yet read (newlines already translated to U+000A by
  the text layer). \<open>f.readline()\<close> returns the next line with its newline, or the empty
  string at end of file, and the file advanced past it.
\<close>

fun readline :: "pystr \<Rightarrow> pystr \<times> pystr" where
  "readline [] = ([], [])"
| "readline (c # cs) =
     (if c = 10 then ([c], cs)
      else (case readline cs of (l, r) \<Rightarrow> (c # l, r)))"

section \<open>\<open>parse_trn\<close>\<close>

lemma readline_length: "length (snd (readline f)) \<le> length f"
  by (induction f) (auto split: prod.splits)

lemma readline_shorter: "f \<noteq> [] \<Longrightarrow> length (snd (readline f)) < length f"
proof -
  assume "f \<noteq> []"
  then obtain c cs where f: "f = c # cs" by (cases f) auto
  have "length (snd (readline cs)) \<le> length cs" by (rule readline_length)
  then show ?thesis using f by (cases "readline cs") auto
qed

text \<open>
  The \<open>while line:\<close> loop of \<open>parse_trn\<close>. \<open>line\<close> is the stripped line last read,
  \<open>f\<close> the file, \<open>trns\<close> the list built so far.
\<close>

function parse_loop ::
  "pystr \<Rightarrow> pystr \<Rightarrow> (pystr \<times> pystr) list \<Rightarrow> error + (pystr \<times> pystr) list" where
  "parse_loop line f trns =
     (if line = [] then Inr trns
      else (case getitem (str_split 9 line) 0 of
              Inl e \<Rightarrow> Inl e
            | Inr idx \<Rightarrow>
                (let pinyin = strip (fst (readline f));
                     f1 = snd (readline f);
                     line' = strip (fst (readline f1));
                     f2 = snd (readline f1)
                 in parse_loop line' f2 (trns @ [(idx, pinyin)]))))"
  by pat_completeness auto
termination
proof (relation "measure (\<lambda>(line, f, trns). length f + (if line = [] then 0 else 1))")
  show "wf (measure (\<lambda>(line, f, trns). length f + (if line = [] then 0 else 1)))"
    by simp
next
  fix line f :: pystr and trns :: "(pystr \<times> pystr) list" and idx pinyin f1 line' f2
  assume ne: "line \<noteq> []"
    and f1: "f1 = snd (readline f)"
    and l': "line' = strip (fst (readline f1))"
    and f2: "f2 = snd (readline f1)"
  show "((line', f2, trns @ [(idx, pinyin)]), line, f, trns)
          \<in> measure (\<lambda>(line, f, trns). length f + (if line = [] then 0 else 1))"
  proof (cases "f = []")
    case True
    then show ?thesis using ne f1 l' f2 by (simp add: strip_def)
  next
    case False
    then have "length f1 < length f" using f1 readline_shorter by simp
    moreover have "length f2 \<le> length f1" using f2 readline_length by simp
    ultimately show ?thesis using ne by simp
  qed
qed

declare parse_loop.simps [simp del]

section \<open>Collaborators\<close>

text \<open>
  \<open>util.audio\<close>, \<open>hparams\<close>, numpy and the file system are not part of this file of the
  repository: they are the fields of an environment. \<open>'s\<close> is the type of one audio
  sample (a floating-point number, whose arithmetic stays abstract), \<open>'m\<close> the type of a
  two-dimensional array. A call that can raise returns \<open>error + _\<close>.
\<close>

record ('s, 'm) env =
  open_text :: "pystr \<Rightarrow> error + pystr"
  load_wav :: "pystr \<Rightarrow> error + 's list"
  np_abs :: "'s \<Rightarrow> 's"
  np_amax :: "'s list \<Rightarrow> 's"
  np_divide :: "'s \<Rightarrow> 's \<Rightarrow> 's"
  np_multiply :: "'s \<Rightarrow> 's \<Rightarrow> 's"
  np_zero :: "'s"
  c_0999 :: "'s"
  trim_silence :: "'s list \<Rightarrow> error + 's list"
  spectrogram :: "'s list \<Rightarrow> error + 'm"
  melspectrogram :: "'s list \<Rightarrow> error + 'm"
  astype_float32 :: "'m \<Rightarrow> 'm"
  np_shape :: "'m \<Rightarrow> nat list"
  np_T :: "'m \<Rightarrow> 'm"
  can_save :: "pystr \<Rightarrow> bool"
  max_frame_num :: "int"

text \<open>
  \<open>with open(trn_file) as f\<close> and the body of \<open>parse_trn\<close>: the first \<open>readline\<close>, then
  the loop. \<open>open_text\<close> gives the decoded text of the file, or the exception of \<open>open\<close>.
\<close>

definition parse_trn_body :: "pystr \<Rightarrow> error + (pystr \<times> pystr) list" where
  "parse_trn_body f0 = parse_loop (strip (fst (readline f0))) (snd (readline f0)) []"

definition parse_trn :: "('s, 'm) env \<Rightarrow> pystr \<Rightarrow> error + (pystr \<times> pystr) list" where
  "parse_trn env trn_file =
     (case open_text env trn_file of
        Inl e \<Rightarrow> Inl e
      | Inr f0 \<Rightarrow> parse_trn_body f0)"

text \<open>
  The layout of a transcription file of line pairs, as the specification describes it:
  for each pair the id line, a newline, the pronunciation line, a newline.
  \<open>trn_entry\<close> is what the parser is to make of a pair: the trimmed id line up to its
  first tab, and the trimmed pronunciation line.
\<close>

definition trn_text :: "(pystr \<times> pystr) list \<Rightarrow> pystr" where
  "trn_text pairs = concat (map (\<lambda>(a, b). a @ [10] @ b @ [10]) pairs)"

definition trn_entry :: "pystr \<times> pystr \<Rightarrow> pystr \<times> pystr" where
  "trn_entry p = (takeWhile (\<lambda>c. c \<noteq> 9) (strip (fst p)), strip (snd p))"

section \<open>\<open>_process_utterance\<close>\<close>

text \<open>\<open>posixpath.join(a, *p)\<close>; U+002F is the separator.\<close>

definition join_step :: "pystr \<Rightarrow> pystr \<Rightarrow> pystr" where
  "join_step path b =
     (if b \<noteq> [] \<and> hd b = 47 then b
      else if path = [] \<or> last path = 47 then path @ b
      else path @ [47] @ b)"

definition path_join :: "pystr \<Rightarrow> pystr list \<Rightarrow> pystr" where
  "path_join a p = foldl join_step a p"

text \<open>\<open>str(n)\<close> for a natural number, and \<open>'%05d' % i\<close> for an integer.\<close>

fun dec_digits :: "nat \<Rightarrow> pystr" where
  "dec_digits n = (if n < 10 then [48 + n] else dec_digits (n div 10) @ [48 + n mod 10])"

declare dec_digits.simps [simp del]

definition fmt_05d :: "int \<Rightarrow> pystr" where
  "fmt_05d i =
     (let sign = (if i < 0 then [45] else []);
          ds = dec_digits (nat \<bar>i\<bar>)
      in sign @ replicate (5 - (length sign + length ds)) 48 @ ds)"

definition endswith :: "pystr \<Rightarrow> pystr \<Rightarrow> bool" where
  "endswith s suf = (length suf \<le> length s \<and> drop (length s - length suf) s = suf)"

text \<open>
  The output directory is a map from path to array. \<open>np.save(file, arr)\<close> appends
  \<open>.npy\<close> to a name that lacks it, then writes; a write that fails raises and leaves
  the directory as it was.
\<close>

type_synonym 'm files = "pystr \<rightharpoonup> 'm"

definition np_save ::
  "('s, 'm) env \<Rightarrow> pystr \<Rightarrow> 'm \<Rightarrow> 'm files \<Rightarrow> (error + unit) \<times> 'm files" where
  "np_save env file arr fs =
     (let file' = (if endswith file (lit ''.npy'') then file else file @ lit ''.npy'')
      in if can_save env file' then (Inr (), fs(file' \<mapsto> arr)) else (Inl OSError, fs))"

text \<open>
  Line 75, \<open>wav / np.abs(wav).max() * 0.999\<close>: \<open>max\<close> of an empty array raises
  ValueError; the division and the product are element by element, and nothing looks at
  the divisor.
\<close>

definition rescale :: "('s, 'm) env \<Rightarrow> 's list \<Rightarrow> error + 's list" where
  "rescale env wav =
     (if wav = [] then Inl ValueError
      else (let m = np_amax env (map (np_abs env) wav)
            in Inr (map (\<lambda>x. np_multiply env (np_divide env x m) (c_0999 env)) wav)))"

definition spectrogram_filename :: "int \<Rightarrow> pystr" where
  "spectrogram_filename index = lit ''biaobei48000-spec-'' @ fmt_05d index @ lit ''.npy''"

definition mel_filename :: "int \<Rightarrow> pystr" where
  "mel_filename index = lit ''biaobei48000-mel-'' @ fmt_05d index @ lit ''.npy''"



type_synonym training_record = "pystr \<times> pystr \<times> nat \<times> pystr"

text \<open>
  The result is the returned value (\<open>None\<close> is the skip sentinel) or the exception
  raised, with the output directory after the call.
\<close>

definition process_utterance ::
  "('s, 'm) env \<Rightarrow> pystr \<Rightarrow> int \<Rightarrow> pystr \<Rightarrow> pystr \<Rightarrow> 'm files
     \<Rightarrow> (error + training_record option) \<times> 'm files" where
  "process_utterance env out_dir index wav_path pinyin fs =
     (case load_wav env wav_path of Inl e \<Rightarrow> (Inl e, fs) | Inr wav0 \<Rightarrow>
      (case rescale env wav0 of Inl e \<Rightarrow> (Inl e, fs) | Inr wav1 \<Rightarrow>
      (case trim_silence env wav1 of Inl e \<Rightarrow> (Inl e, fs) | Inr wav \<Rightarrow>
      (case spectrogram env wav of Inl e \<Rightarrow> (Inl e, fs) | Inr sp \<Rightarrow>
      (let spec = astype_float32 env sp in
       case getitem (np_shape env spec) 1 of Inl e \<Rightarrow> (Inl e, fs) | Inr n_frames \<Rightarrow>
       if int n_frames > max_frame_num env then (Inr None, fs)
       else
      (case melspectrogram env wav of Inl e \<Rightarrow> (Inl e, fs) | Inr ms \<Rightarrow>
      (let mel_spectrogram = astype_float32 env ms in
       case np_save env (path_join out_dir [spectrogram_filename index]) (np_T env spec) fs of
         (Inl e, fs1) \<Rightarrow> (Inl e, fs1)
       | (Inr u, fs1) \<Rightarrow>
      (case np_save env (path_join out_dir [mel_filename index]) (np_T env mel_spectrogram) fs1 of
         (Inl e, fs2) \<Rightarrow> (Inl e, fs2)
       | (Inr u', fs2) \<Rightarrow>
           (Inr (Some (spectrogram_filename index, mel_filename index, n_frames, pinyin)),
            fs2)))))))))"

section \<open>\<open>build_from_path\<close>\<close>

text \<open>
  \<open>partial(_process_utterance, out_dir, index, wav_file, pinyin)\<close> is a record of the
  four arguments. A future holds its task and what the task did: the value returned or
  the exception raised, which \<open>future.result()\<close> returns or raises again. The source's
  comment says the pool is only an optimisation of calling \<open>_process_utterance\<close> on each
  input, so \<open>submit\<close> runs the task on the output directory, in submission order.
\<close>

record task =
  t_out_dir :: pystr
  t_index :: int
  t_wav_file :: pystr
  t_pinyin :: pystr

record future =
  fut_task :: task
  fut_result :: "error + training_record option"

definition submit :: "('s, 'm) env \<Rightarrow> task \<Rightarrow> 'm files \<Rightarrow> future \<times> 'm files" where
  "submit env t fs =
     (case process_utterance env (t_out_dir t) (t_index t) (t_wav_file t) (t_pinyin t) fs of
        (r, fs') \<Rightarrow> (\<lparr>fut_task = t, fut_result = r\<rparr>, fs'))"

text \<open>The \<open>for idx, pinyin in trn_ids\<close> loop, lines 47 to 51.\<close>

fun submit_loop ::
  "('s, 'm) env \<Rightarrow> pystr \<Rightarrow> pystr \<Rightarrow> (pystr \<times> pystr) list \<Rightarrow> int \<Rightarrow> future list \<Rightarrow> 'm files
     \<Rightarrow> future list \<times> 'm files" where
  "submit_loop env in_dir out_dir [] index futures fs = (futures, fs)"
| "submit_loop env in_dir out_dir ((idx, pinyin) # rest) index futures fs =
     (let wav_file = path_join in_dir [lit ''Wave'', idx @ lit ''.wav''];
          t = \<lparr>t_out_dir = out_dir, t_index = index, t_wav_file = wav_file,
               t_pinyin = pinyin\<rparr>
      in case submit env t fs of
           (fut, fs') \<Rightarrow> submit_loop env in_dir out_dir rest (index + 1) (futures @ [fut]) fs')"

text \<open>
  The list comprehension of line 52 over the futures it is given: the condition calls
  \<open>future.result()\<close> first, so the first future that holds an exception ends the
  comprehension with it.
\<close>

fun collect :: "future list \<Rightarrow> error + training_record list" where
  "collect [] = Inr []"
| "collect (fut # futs) =
     (case fut_result fut of
        Inl e \<Rightarrow> Inl e
      | Inr None \<Rightarrow> collect futs
      | Inr (Some r) \<Rightarrow> (case collect futs of Inl e \<Rightarrow> Inl e | Inr rs \<Rightarrow> Inr (r # rs)))"

text \<open>
  \<open>ProcessPoolExecutor(max_workers=num_workers)\<close> raises ValueError unless the number is
  positive. \<open>tqdm\<close> is the caller's wrapper of the list of futures (\<open>lambda x: x\<close> by
  default).
\<close>

definition build_from_path ::
  "('s, 'm) env \<Rightarrow> pystr \<Rightarrow> pystr \<Rightarrow> int \<Rightarrow> (future list \<Rightarrow> future list) \<Rightarrow> 'm files
     \<Rightarrow> (error + training_record list) \<times> 'm files" where
  "build_from_path env in_dir out_dir num_workers tqdm fs =
     (if num_workers \<le> 0 then (Inl ValueError, fs)
      else (let trn_file = path_join in_dir [lit ''ProsodyLabeling'', lit ''000001-010000.txt'']
            in case parse_trn env trn_file of
                 Inl e \<Rightarrow> (Inl e, fs)
               | Inr trn_ids \<Rightarrow>
                   (case submit_loop env in_dir out_dir trn_ids 1 [] fs of
                      (futures, fs') \<Rightarrow> (collect (tqdm futures), fs'))))"

text \<open>
  For stating what the loop does: the task it builds for the \<open>k\<close>-th entry (counting
  from 0) of the parsed list, and the outcome of a task, which does not depend on the
  files already written.
\<close>

definition nth_task :: "pystr \<Rightarrow> pystr \<Rightarrow> (pystr \<times> pystr) list \<Rightarrow> nat \<Rightarrow> task" where
  "nth_task in_dir out_dir trn_ids k =
     \<lparr>t_out_dir = out_dir, t_index = int k + 1,
      t_wav_file = path_join in_dir [lit ''Wave'', fst (trn_ids ! k) @ lit ''.wav''],
      t_pinyin = snd (trn_ids ! k)\<rparr>"

definition unit_outcome :: "('s, 'm) env \<Rightarrow> task \<Rightarrow> error + training_record option" where
  "unit_outcome env t =
     fst (process_utterance env (t_out_dir t) (t_index t) (t_wav_file t) (t_pinyin t) Map.empty)"

text \<open>The futures the loop of \<open>build_from_path\<close> makes, in submission order.\<close>

definition futures_of ::
  "('s, 'm) env \<Rightarrow> pystr \<Rightarrow> pystr \<Rightarrow> (pystr \<times> pystr) list \<Rightarrow> future list" where
  "futures_of env in_dir out_dir trn_ids =
     map (\<lambda>k. \<lparr>fut_task = nth_task in_dir out_dir trn_ids k,
                fut_result = unit_outcome env (nth_task in_dir out_dir trn_ids k)\<rparr>)
       [0..<length trn_ids]"

section \<open>A small environment\<close>

text \<open>
  An environment to run the definitions on: the transcription file holds \<open>txt\<close>, samples
  are integers, an array is its shape, one wave file cannot be read and one is silent.
\<close>

definition demo_env :: "pystr \<Rightarrow> int \<Rightarrow> (int, nat \<times> nat) env" where
  "demo_env txt maxf =
     \<lparr>open_text = (\<lambda>p. if p = lit ''in/ProsodyLabeling/000001-010000.txt'' then Inr txt
                         else Inl OSError),
      load_wav = (\<lambda>p. if p = lit ''in/Wave/000002.wav'' then Inl OSError
                        else if p = lit ''in/Wave/000003.wav'' then Inr [0, 0, 0]
                        else Inr [3, -4]),
      np_abs = abs,
      np_amax = (\<lambda>xs. fold max xs (hd xs)),
      np_divide = (\<lambda>x y. if y = 0 then 0 else x div y),
      np_multiply = (\<lambda>x y. x * y),
      np_zero = 0,
      c_0999 = 1,
      trim_silence = Inr,
      spectrogram = (\<lambda>w. Inr (1025, length w)),
      melspectrogram = (\<lambda>w. Inr (80, length w)),
      astype_float32 = (\<lambda>m. m),
      np_shape = (\<lambda>m. [fst m, snd m]),
      np_T = (\<lambda>m. (snd m, fst m)),
      can_save = (\<lambda>p. True),
      max_frame_num = maxf\<rparr>"

text \<open>Two transcription files for it.\<close>

definition demo_text :: pystr where
  "demo_text = trn_text [(lit ''000003'' @ [9] @ lit ''x#2'', 9 # lit ''ka2 er2''),
                        (lit ''000001'' @ [9] @ lit ''y'', 9 # lit ''pu3'')]"


section \<open>Properties of \<open>parse_trn\<close>\<close>

lemma str_split_hd: "\<exists>ws. str_split sep s = takeWhile (\<lambda>c. c \<noteq> sep) s # ws"
  by (induction s) (auto split: list.splits)

lemma getitem_split: "getitem (str_split sep s) 0 = Inr (takeWhile (\<lambda>c. c \<noteq> sep) s)"
proof -
  obtain ws where "str_split sep s = takeWhile (\<lambda>c. c \<noteq> sep) s # ws"
    using str_split_hd by blast
  then show ?thesis by (simp add: getitem_def)
qed

lemma parse_loop_step:
  "line \<noteq> [] \<Longrightarrow>
   parse_loop line f trns =
     parse_loop (strip (fst (readline (snd (readline f))))) (snd (readline (snd (readline f))))
       (trns @ [(takeWhile (\<lambda>c. c \<noteq> 9) line, strip (fst (readline f)))])"
  by (subst parse_loop.simps) (simp add: getitem_split Let_def)

lemma parse_loop_stop: "parse_loop [] f trns = Inr trns"
  by (subst parse_loop.simps) simp

lemma parse_loop_app:
  "parse_loop line f trns = Inr r \<Longrightarrow> parse_loop line f (pre @ trns) = Inr (pre @ r)"
proof (induction line f trns arbitrary: pre r rule: parse_loop.induct)
  case (1 line f trns)
  show ?case
  proof (cases "line = []")
    case True
    then show ?thesis using "1.prems" by (simp add: parse_loop_stop)
  next
    case False
    let ?l = "strip (fst (readline (snd (readline f))))"
    let ?f = "snd (readline (snd (readline f)))"
    let ?e = "(takeWhile (\<lambda>c. c \<noteq> 9) line, strip (fst (readline f)))"
    have "parse_loop ?l ?f (trns @ [?e]) = Inr r"
      using "1.prems" parse_loop_step [OF False, of f trns] by simp
    then have "parse_loop ?l ?f (pre @ (trns @ [?e])) = Inr (pre @ r)"
      by (rule "1.IH" [OF False getitem_split refl refl refl refl])
    then show ?thesis
      using parse_loop_step [OF False, of f "pre @ trns"] by simp
  qed
qed

lemma parse_loop_total: "\<exists>r. parse_loop line f trns = Inr r"
proof (induction line f trns rule: parse_loop.induct)
  case (1 line f trns)
  show ?case
  proof (cases "line = []")
    case True
    then show ?thesis by (simp add: parse_loop_stop)
  next
    case False
    show ?thesis
      using "1.IH" [OF False getitem_split refl refl refl refl]
        parse_loop_step [OF False, of f trns] by simp
  qed
qed

lemma body_total: "\<exists>r. parse_trn_body f0 = Inr r"
  unfolding parse_trn_body_def by (rule parse_loop_total)

lemma readline_line: "10 \<notin> set l \<Longrightarrow> readline (l @ 10 # rest) = (l @ [10], rest)"
  by (induction l) auto

lemma readline_last: "10 \<notin> set l \<Longrightarrow> readline l = (l, [])"
  by (induction l) auto

lemma strip_snoc: "isspace c \<Longrightarrow> strip (l @ [c]) = strip l"
proof (cases "\<forall>x \<in> set l. isspace x")
  case True
  assume c: "isspace c"
  have a: "dropWhile isspace l = []" using True by simp
  have b: "dropWhile isspace (l @ [c]) = []" using True c by simp
  show ?thesis unfolding strip_def a b ..
next
  case False
  assume c: "isspace c"
  from False have "dropWhile isspace (l @ [c]) = dropWhile isspace l @ [c]"
    by (auto simp: dropWhile_append1)
  then show ?thesis using c by (simp add: strip_def)
qed

lemma strip_nl: "strip (l @ [10]) = strip l"
  by (rule strip_snoc) (simp add: isspace_def)

lemma strip_Nil: "strip [] = []"
  by (simp add: strip_def)

lemma body_Nil: "parse_trn_body [] = Inr []"
  by (simp add: parse_trn_body_def strip_Nil parse_loop_stop)

lemma body_blank:
  "10 \<notin> set a \<Longrightarrow> strip a = [] \<Longrightarrow> parse_trn_body (a @ 10 # rest) = Inr []"
  by (simp add: parse_trn_body_def readline_line strip_nl parse_loop_stop)

lemma body_pair:
  assumes a: "10 \<notin> set a" and b: "10 \<notin> set b" and ne: "strip a \<noteq> []"
    and r: "parse_trn_body rest = Inr r"
  shows "parse_trn_body (a @ 10 # b @ 10 # rest) = Inr (trn_entry (a, b) # r)"
proof -
  have "parse_trn_body (a @ 10 # b @ 10 # rest) = parse_loop (strip a) (b @ 10 # rest) []"
    using a by (simp add: parse_trn_body_def readline_line strip_nl)
  also have "\<dots> = parse_loop (strip (fst (readline rest))) (snd (readline rest)) ([trn_entry (a, b)] @ [])"
    using b by (simp add: parse_loop_step [OF ne] readline_line strip_nl trn_entry_def)
  also have "\<dots> = Inr ([trn_entry (a, b)] @ r)"
    using r unfolding parse_trn_body_def by (rule parse_loop_app)
  finally show ?thesis by simp
qed

lemma body_text:
  assumes "\<forall>p \<in> set pairs. 10 \<notin> set (fst p) \<and> 10 \<notin> set (snd p) \<and> strip (fst p) \<noteq> []"
    and "parse_trn_body rest = Inr r"
  shows "parse_trn_body (trn_text pairs @ rest) = Inr (map trn_entry pairs @ r)"
  using assms
proof (induction pairs)
  case Nil
  then show ?case by (simp add: trn_text_def)
next
  case (Cons p pairs)
  obtain a b where p: "p = (a, b)" by (cases p)
  have ih: "parse_trn_body (trn_text pairs @ rest) = Inr (map trn_entry pairs @ r)"
    using Cons by simp
  have "trn_text (p # pairs) @ rest = a @ 10 # b @ 10 # (trn_text pairs @ rest)"
    by (simp add: trn_text_def p)
  moreover have "10 \<notin> set a" "10 \<notin> set b" "strip a \<noteq> []" using Cons.prems p by auto
  ultimately have "parse_trn_body (trn_text (p # pairs) @ rest) =
      Inr (trn_entry (a, b) # (map trn_entry pairs @ r))"
    using body_pair ih by simp
  then show ?case using p by simp
qed

lemma body_last_id:
  assumes a: "10 \<notin> set a" and ne: "strip a \<noteq> []"
  shows "parse_trn_body a = Inr [(takeWhile (\<lambda>c. c \<noteq> 9) (strip a), [])]"
    and "parse_trn_body (a @ [10]) = Inr [(takeWhile (\<lambda>c. c \<noteq> 9) (strip a), [])]"
proof -
  have "parse_loop (strip a) [] [] = Inr [(takeWhile (\<lambda>c. c \<noteq> 9) (strip a), [])]"
    by (simp add: parse_loop_step [OF ne] strip_Nil parse_loop_stop)
  then show "parse_trn_body a = Inr [(takeWhile (\<lambda>c. c \<noteq> 9) (strip a), [])]"
    and "parse_trn_body (a @ [10]) = Inr [(takeWhile (\<lambda>c. c \<noteq> 9) (strip a), [])]"
    using a readline_line [OF a, of "[]"] by (simp_all add: parse_trn_body_def readline_last strip_nl)
qed







text \<open>
  C9. An id line without a tab raises nothing: after any well-formed pairs, an id line
  \<open>a\<close> with no tab (and some character that is not whitespace) gives the entry whose
  identifier is the whole trimmed line and whose pronunciation is the next line of the
  file, trimmed; the parse goes on with the rest of the file and returns a list.
\<close>
theorem parse_trn_no_tab:
  assumes op: "open_text env trn_file = Inr (trn_text pairs @ a @ 10 # f)"
    and wf: "\<forall>p \<in> set pairs. 10 \<notin> set (fst p) \<and> 10 \<notin> set (snd p) \<and> strip (fst p) \<noteq> []"
    and a: "9 \<notin> set a" "10 \<notin> set a" "strip a \<noteq> []"
  shows "\<exists>more. parse_trn env trn_file =
           Inr (map trn_entry pairs @ (strip a, strip (fst (readline f))) # more) \<and>
         parse_trn_body (snd (readline f)) = Inr more"
proof -
  obtain more where more: "parse_trn_body (snd (readline f)) = Inr more"
    using body_total by blast
  have "set (strip a) \<subseteq> set a"
  proof
    fix x assume "x \<in> set (strip a)"
    then have "x \<in> set (dropWhile isspace (rev (dropWhile isspace a)))"
      by (simp add: strip_def)
    then have "x \<in> set (rev (dropWhile isspace a))" by (rule set_dropWhileD)
    then have "x \<in> set (dropWhile isspace a)" by simp
    then show "x \<in> set a" by (rule set_dropWhileD)
  qed
  then have tw: "takeWhile (\<lambda>c. c \<noteq> 9) (strip a) = strip a"
    using a(1) by (auto simp: takeWhile_eq_all_conv)
  have "parse_trn_body (a @ 10 # f) = parse_loop (strip a) f []"
    using a(2) by (simp add: parse_trn_body_def readline_line strip_nl)
  also have "\<dots> = parse_loop (strip (fst (readline (snd (readline f)))))
      (snd (readline (snd (readline f)))) ([(strip a, strip (fst (readline f)))] @ [])"
    using parse_loop_step [OF a(3), of f "[]"] tw by simp
  also have "\<dots> = Inr ([(strip a, strip (fst (readline f)))] @ more)"
    using more unfolding parse_trn_body_def by (rule parse_loop_app)
  finally have "parse_trn_body (a @ 10 # f) = Inr ((strip a, strip (fst (readline f))) # more)"
    by simp
  from body_text [OF wf this] show ?thesis
    using op more by (simp add: parse_trn_def)
qed

theorem parse_trn_no_tab_witness:
  "parse_trn (demo_env (lit ''000001'' @ [10, 9] @ lit ''ka2'' @ [10] @ lit ''000002'' @ [9, 10]) 1000)
       (lit ''in/ProsodyLabeling/000001-010000.txt'')
     = Inr [(lit ''000001'', lit ''ka2''), (lit ''000002'', [])]"
  using parse_trn_no_tab [of "demo_env (lit ''000001'' @ [10, 9] @ lit ''ka2'' @ [10] @ lit ''000002'' @ [9, 10]) 1000"
      "lit ''in/ProsodyLabeling/000001-010000.txt''" "[]" "lit ''000001''"
      "9 # lit ''ka2'' @ [10] @ lit ''000002'' @ [9, 10]"]
  by (simp add: demo_env_def lit_def strip_def isspace_def trn_text_def parse_trn_body_def
      parse_loop_step parse_loop_stop)

text \<open>
  C10. A file that ends right after an id line (with or without its newline): the
  pronunciation read at end of file is the empty string, the last entry pairs the
  identifier with it, and \<open>parse_trn\<close> returns.
\<close>
theorem parse_trn_odd_lines:
  assumes op: "open_text env trn_file = Inr txt"
    and tx: "txt = trn_text pairs @ a \<or> txt = trn_text pairs @ a @ [10]"
    and wf: "\<forall>p \<in> set pairs. 10 \<notin> set (fst p) \<and> 10 \<notin> set (snd p) \<and> strip (fst p) \<noteq> []"
    and a: "10 \<notin> set a" "strip a \<noteq> []"
  shows "parse_trn env trn_file =
           Inr (map trn_entry pairs @ [(takeWhile (\<lambda>c. c \<noteq> 9) (strip a), [])])"
proof -
  have "parse_trn_body (trn_text pairs @ a) =
      Inr (map trn_entry pairs @ [(takeWhile (\<lambda>c. c \<noteq> 9) (strip a), [])])"
    by (rule body_text [OF wf body_last_id(1) [OF a]])
  moreover have "parse_trn_body (trn_text pairs @ a @ [10]) =
      Inr (map trn_entry pairs @ [(takeWhile (\<lambda>c. c \<noteq> 9) (strip a), [])])"
    by (rule body_text [OF wf body_last_id(2) [OF a]])
  ultimately show ?thesis using op tx by (auto simp: parse_trn_def)
qed

theorem parse_trn_odd_lines_witness:
  "parse_trn (demo_env (lit ''000001'' @ [9] @ lit ''x'' @ [10, 9] @ lit ''ka2'' @ [10] @ lit ''000002'' @ [9] @ lit ''y'') 1000)
       (lit ''in/ProsodyLabeling/000001-010000.txt'')
     = Inr [(lit ''000001'', lit ''ka2''), (lit ''000002'', [])]"
  using parse_trn_odd_lines [of "demo_env (lit ''000001'' @ [9] @ lit ''x'' @ [10, 9] @ lit ''ka2'' @ [10] @ lit ''000002'' @ [9] @ lit ''y'') 1000"
      "lit ''in/ProsodyLabeling/000001-010000.txt''"
      "lit ''000001'' @ [9] @ lit ''x'' @ [10, 9] @ lit ''ka2'' @ [10] @ lit ''000002'' @ [9] @ lit ''y''"
      "[(lit ''000001'' @ [9] @ lit ''x'', 9 # lit ''ka2'')]" "lit ''000002'' @ [9] @ lit ''y''"]
  by (simp add: demo_env_def lit_def strip_def isspace_def trn_text_def trn_entry_def)

section \<open>Properties of the file names\<close>










lemma join_name:
  "name \<noteq> [] \<Longrightarrow> hd name \<noteq> 47 \<Longrightarrow>
   path_join out_dir [name] = (if out_dir = [] \<or> last out_dir = 47 then out_dir @ name
                               else out_dir @ [47] @ name)"
  by (simp add: path_join_def join_step_def)

lemma hd_spec: "spectrogram_filename k \<noteq> [] \<and> hd (spectrogram_filename k) \<noteq> 47"
  by (simp add: spectrogram_filename_def lit_def)

lemma hd_mel: "mel_filename k \<noteq> [] \<and> hd (mel_filename k) \<noteq> 47"
  by (simp add: mel_filename_def lit_def)




section \<open>Properties of \<open>_process_utterance\<close>\<close>

lemma endswith_append: "endswith (a @ suf) suf"
  by (simp add: endswith_def)

lemma spec_path_npy: "endswith (path_join out_dir [spectrogram_filename k]) (lit ''.npy'')"
proof -
  have "\<exists>a. path_join out_dir [spectrogram_filename k] = a @ lit ''.npy''"
  proof (cases "out_dir = [] \<or> last out_dir = 47")
    case True
    have "path_join out_dir [spectrogram_filename k] =
        (out_dir @ lit ''biaobei48000-spec-'' @ fmt_05d k) @ lit ''.npy''"
      using True hd_spec [of k] by (simp add: join_name) (simp add: spectrogram_filename_def)
    then show ?thesis by blast
  next
    case False
    have "path_join out_dir [spectrogram_filename k] =
        (out_dir @ [47] @ lit ''biaobei48000-spec-'' @ fmt_05d k) @ lit ''.npy''"
      using False hd_spec [of k] by (simp add: join_name) (simp add: spectrogram_filename_def)
    then show ?thesis by blast
  qed
  then show ?thesis using endswith_append by auto
qed

lemma mel_path_npy: "endswith (path_join out_dir [mel_filename k]) (lit ''.npy'')"
proof -
  have "\<exists>a. path_join out_dir [mel_filename k] = a @ lit ''.npy''"
  proof (cases "out_dir = [] \<or> last out_dir = 47")
    case True
    have "path_join out_dir [mel_filename k] =
        (out_dir @ lit ''biaobei48000-mel-'' @ fmt_05d k) @ lit ''.npy''"
      using True hd_mel [of k] by (simp add: join_name) (simp add: mel_filename_def)
    then show ?thesis by blast
  next
    case False
    have "path_join out_dir [mel_filename k] =
        (out_dir @ [47] @ lit ''biaobei48000-mel-'' @ fmt_05d k) @ lit ''.npy''"
      using False hd_mel [of k] by (simp add: join_name) (simp add: mel_filename_def)
    then show ?thesis by blast
  qed
  then show ?thesis using endswith_append by auto
qed

lemma np_save_npy:
  "endswith file (lit ''.npy'') \<Longrightarrow>
   np_save env file arr fs =
     (if can_save env file then (Inr (), fs(file \<mapsto> arr)) else (Inl OSError, fs))"
  by (simp add: np_save_def)

text \<open>
  \<open>_process_utterance\<close> once the linear spectrogram is there: \<open>wav\<close> is the trimmed
  wave, \<open>sp\<close> its spectrogram and \<open>n\<close> the second entry of its shape.
\<close>

lemma process_utterance_frames:
  assumes "load_wav env wav_path = Inr wav0"
    and "rescale env wav0 = Inr wav1"
    and "trim_silence env wav1 = Inr wav"
    and "spectrogram env wav = Inr sp"
    and "getitem (np_shape env (astype_float32 env sp)) 1 = Inr n"
  shows "process_utterance env out_dir index wav_path pinyin fs =
     (if int n > max_frame_num env then (Inr None, fs)
      else (case melspectrogram env wav of
              Inl e \<Rightarrow> (Inl e, fs)
            | Inr ms \<Rightarrow>
               (if \<not> can_save env (path_join out_dir [spectrogram_filename index])
                then (Inl OSError, fs)
                else if \<not> can_save env (path_join out_dir [mel_filename index])
                then (Inl OSError,
                      fs(path_join out_dir [spectrogram_filename index] \<mapsto>
                           np_T env (astype_float32 env sp)))
                else (Inr (Some (spectrogram_filename index, mel_filename index, n, pinyin)),
                      fs(path_join out_dir [spectrogram_filename index] \<mapsto>
                           np_T env (astype_float32 env sp),
                         path_join out_dir [mel_filename index] \<mapsto>
                           np_T env (astype_float32 env ms))))))"
  using assms
  by (simp add: process_utterance_def Let_def np_save_npy spec_path_npy mel_path_npy
      split: sum.splits)

text \<open>
  C1. Skip law. Take a call of \<open>_process_utterance\<close> that gets as far as the linear
  spectrogram, whose shape has \<open>n\<close> as second entry. If \<open>n\<close> is greater than
  \<open>max_frame_num\<close> the call returns the skip sentinel and the output directory is as
  before. Otherwise the call never returns the sentinel: whenever it returns, it returns
  the record of the two file names, \<open>n\<close> and the pronunciation, with exactly the two
  arrays written; and it does return when the mel spectrogram and the two writes
  complete.
\<close>
theorem skip_law:
  assumes "load_wav env wav_path = Inr wav0"
    and "rescale env wav0 = Inr wav1"
    and "trim_silence env wav1 = Inr wav"
    and "spectrogram env wav = Inr sp"
    and "getitem (np_shape env (astype_float32 env sp)) 1 = Inr n"
  shows "(max_frame_num env < int n \<longrightarrow>
            process_utterance env out_dir index wav_path pinyin fs = (Inr None, fs)) \<and>
         (int n \<le> max_frame_num env \<longrightarrow>
            fst (process_utterance env out_dir index wav_path pinyin fs) \<noteq> Inr None \<and>
            (\<forall>r fs'. process_utterance env out_dir index wav_path pinyin fs = (Inr r, fs') \<longrightarrow>
               (\<exists>ms. melspectrogram env wav = Inr ms \<and>
                  r = Some (spectrogram_filename index, mel_filename index, n, pinyin) \<and>
                  fs' = fs(path_join out_dir [spectrogram_filename index] \<mapsto>
                             np_T env (astype_float32 env sp),
                           path_join out_dir [mel_filename index] \<mapsto>
                             np_T env (astype_float32 env ms)))) \<and>
            (\<forall>ms. melspectrogram env wav = Inr ms \<and>
               can_save env (path_join out_dir [spectrogram_filename index]) \<and>
               can_save env (path_join out_dir [mel_filename index]) \<longrightarrow>
               process_utterance env out_dir index wav_path pinyin fs =
                 (Inr (Some (spectrogram_filename index, mel_filename index, n, pinyin)),
                  fs(path_join out_dir [spectrogram_filename index] \<mapsto>
                       np_T env (astype_float32 env sp),
                     path_join out_dir [mel_filename index] \<mapsto>
                       np_T env (astype_float32 env ms)))))"
proof (intro conjI impI allI)
  assume "max_frame_num env < int n"
  then show "process_utterance env out_dir index wav_path pinyin fs = (Inr None, fs)"
    by (simp add: process_utterance_frames [OF assms])
next
  assume "int n \<le> max_frame_num env"
  then show "fst (process_utterance env out_dir index wav_path pinyin fs) \<noteq> Inr None"
    by (simp add: process_utterance_frames [OF assms] split: sum.splits)
next
  fix r fs'
  assume "int n \<le> max_frame_num env"
    and "process_utterance env out_dir index wav_path pinyin fs = (Inr r, fs')"
  then show "\<exists>ms. melspectrogram env wav = Inr ms \<and>
       r = Some (spectrogram_filename index, mel_filename index, n, pinyin) \<and>
       fs' = fs(path_join out_dir [spectrogram_filename index] \<mapsto>
                  np_T env (astype_float32 env sp),
                path_join out_dir [mel_filename index] \<mapsto>
                  np_T env (astype_float32 env ms))"
    by (simp add: process_utterance_frames [OF assms] split: sum.splits if_splits)
next
  fix ms
  assume "int n \<le> max_frame_num env"
    and "melspectrogram env wav = Inr ms \<and>
       can_save env (path_join out_dir [spectrogram_filename index]) \<and>
       can_save env (path_join out_dir [mel_filename index])"
  then show "process_utterance env out_dir index wav_path pinyin fs =
       (Inr (Some (spectrogram_filename index, mel_filename index, n, pinyin)),
        fs(path_join out_dir [spectrogram_filename index] \<mapsto>
             np_T env (astype_float32 env sp),
           path_join out_dir [mel_filename index] \<mapsto>
             np_T env (astype_float32 env ms)))"
    by (simp add: process_utterance_frames [OF assms])
qed

lemma demo_rescale: "rescale (demo_env t m) [3, -4] = Inr [0, -1]"
  by (simp add: rescale_def demo_env_def)

lemma demo_getitem: "getitem [1025, 2 :: nat] 1 = Inr 2"
  by (simp add: getitem_def)

theorem skip_law_witness:
  "process_utterance (demo_env [] 1) (lit ''out'') 1 (lit ''in/Wave/000001.wav'') (lit ''ka2'')
       Map.empty = (Inr None, Map.empty) \<and>
   process_utterance (demo_env [] 1000) (lit ''out'') 1 (lit ''in/Wave/000001.wav'') (lit ''ka2'')
       Map.empty =
     (Inr (Some (spectrogram_filename 1, mel_filename 1, 2, lit ''ka2'')),
      [path_join (lit ''out'') [spectrogram_filename 1] \<mapsto> (2, 1025),
       path_join (lit ''out'') [mel_filename 1] \<mapsto> (2, 80)])"
proof -
  have l: "load_wav (demo_env [] m) (lit ''in/Wave/000001.wav'') = Inr [3, -4]" for m
    by (simp add: demo_env_def lit_def)
  have t: "trim_silence (demo_env [] m) [0, -1] = Inr [0, -1]" for m
    by (simp add: demo_env_def)
  have s: "spectrogram (demo_env [] m) [0, -1] = Inr (1025, 2)" for m
    by (simp add: demo_env_def)
  have g: "getitem (np_shape (demo_env [] m) (astype_float32 (demo_env [] m) (1025, 2))) 1 = Inr 2" for m
    by (simp add: demo_env_def getitem_def)
  note a = skip_law [OF l demo_rescale t s g, of 1 "lit ''out''" 1 "lit ''ka2''" Map.empty]
  note b = skip_law [OF l demo_rescale t s g, of 1000 "lit ''out''" 1 "lit ''ka2''" Map.empty]
  have a': "process_utterance (demo_env [] 1) (lit ''out'') 1 (lit ''in/Wave/000001.wav'') (lit ''ka2'')
       Map.empty = (Inr None, Map.empty)"
    using a by (simp add: demo_env_def)
  have "melspectrogram (demo_env [] 1000) [0, -1] = Inr (80, 2) \<and>
      can_save (demo_env [] 1000) (path_join (lit ''out'') [spectrogram_filename 1]) \<and>
      can_save (demo_env [] 1000) (path_join (lit ''out'') [mel_filename 1])"
    by (simp add: demo_env_def)
  moreover have "int 2 \<le> max_frame_num (demo_env [] 1000)" by (simp add: demo_env_def)
  ultimately have "process_utterance (demo_env [] 1000) (lit ''out'') 1 (lit ''in/Wave/000001.wav'') (lit ''ka2'')
       Map.empty =
     (Inr (Some (spectrogram_filename 1, mel_filename 1, 2, lit ''ka2'')),
      [path_join (lit ''out'') [spectrogram_filename 1] \<mapsto>
         np_T (demo_env [] 1000) (astype_float32 (demo_env [] 1000) (1025, 2)),
       path_join (lit ''out'') [mel_filename 1] \<mapsto>
         np_T (demo_env [] 1000) (astype_float32 (demo_env [] 1000) (80, 2))])"
    using b by blast
  then show ?thesis using a' by (simp add: demo_env_def)
qed

text \<open>
  C7. A silent wave: the array is not empty and the largest absolute sample is zero.
  The rescaling step has no guard: it raises nothing and skips nothing, and its result is
  every sample divided by that zero, times the constant.
\<close>
theorem rescale_silent:
  assumes "wav \<noteq> []"
    and "np_amax env (map (np_abs env) wav) = np_zero env"
  shows "rescale env wav =
           Inr (map (\<lambda>x. np_multiply env (np_divide env x (np_zero env)) (c_0999 env)) wav)"
  using assms by (simp add: rescale_def)

theorem rescale_silent_witness:
  "rescale (demo_env [] 1000) [0, 0] = Inr [0, 0]"
  using rescale_silent [of "[0, 0]" "demo_env [] 1000"]
  by (simp add: demo_env_def)

section \<open>Properties of \<open>build_from_path\<close>\<close>

lemma process_utterance_fst:
  "fst (process_utterance env out_dir index wav_path pinyin fs) =
   fst (process_utterance env out_dir index wav_path pinyin fs')"
  by (simp add: process_utterance_def np_save_def Let_def split: sum.splits)

lemma submit_result:
  "fst (submit env t fs) = \<lparr>fut_task = t, fut_result = unit_outcome env t\<rparr>"
proof -
  obtain r fs' where pu:
    "process_utterance env (t_out_dir t) (t_index t) (t_wav_file t) (t_pinyin t) fs = (r, fs')"
    by (cases "process_utterance env (t_out_dir t) (t_index t) (t_wav_file t) (t_pinyin t) fs")
  have "r = unit_outcome env t"
    using process_utterance_fst [of env "t_out_dir t" "t_index t" "t_wav_file t" "t_pinyin t"
        fs Map.empty] pu
    by (simp add: unit_outcome_def)
  then show ?thesis using pu by (simp add: submit_def)
qed

text \<open>The task of the loop for the \<open>k\<close>-th of the entries still to come, at index \<open>i\<close>.\<close>

lemma submit_loop_futures:
  "fst (submit_loop env in_dir out_dir trn_ids i futures fs) =
     futures @
     map (\<lambda>k. \<lparr>fut_task = (nth_task in_dir out_dir trn_ids k)\<lparr>t_index := i + int k\<rparr>,
                fut_result = unit_outcome env ((nth_task in_dir out_dir trn_ids k)\<lparr>t_index := i + int k\<rparr>)\<rparr>)
       [0..<length trn_ids]"
proof (induction trn_ids arbitrary: i futures fs)
  case Nil
  show ?case by simp
next
  case (Cons p rest)
  obtain idx pinyin where p: "p = (idx, pinyin)" by (cases p)
  let ?t = "\<lparr>t_out_dir = out_dir, t_index = i,
             t_wav_file = path_join in_dir [lit ''Wave'', idx @ lit ''.wav''],
             t_pinyin = pinyin\<rparr>"
  obtain fut fs' where s: "submit env ?t fs = (fut, fs')" by (cases "submit env ?t fs")
  have fut: "fut = \<lparr>fut_task = ?t, fut_result = unit_outcome env ?t\<rparr>"
    using submit_result [of env ?t fs] s by simp
  have step: "submit_loop env in_dir out_dir (p # rest) i futures fs =
      submit_loop env in_dir out_dir rest (i + 1) (futures @ [fut]) fs'"
    using s p by (simp add: Let_def)
  have t0: "(nth_task in_dir out_dir (p # rest) 0)\<lparr>t_index := i + int 0\<rparr> = ?t"
    by (simp add: nth_task_def p)
  have tS: "(nth_task in_dir out_dir (p # rest) (Suc k))\<lparr>t_index := i + int (Suc k)\<rparr> =
      (nth_task in_dir out_dir rest k)\<lparr>t_index := (i + 1) + int k\<rparr>" for k
    by (simp add: nth_task_def)
  show ?case
    unfolding step Cons.IH
    by (simp only: length_Cons map_upt_Suc t0 tS fut append_assoc append_Cons append_Nil)
qed

lemma collect_ok:
  "\<forall>f \<in> set futs. \<exists>r. fut_result f = Inr r \<Longrightarrow>
   collect futs =
     Inr (List.map_filter (\<lambda>f. case fut_result f of Inr r \<Rightarrow> r | Inl e \<Rightarrow> None) futs)"
proof (induction futs)
  case Nil
  show ?case by (simp add: List.map_filter_simps)
next
  case (Cons f futs)
  then obtain r where r: "fut_result f = Inr r" by auto
  have ih: "collect futs =
     Inr (List.map_filter (\<lambda>f. case fut_result f of Inr r \<Rightarrow> r | Inl e \<Rightarrow> None) futs)"
    using Cons by simp
  show ?case using r ih by (cases r) (simp_all add: List.map_filter_simps)
qed



lemma submit_loop_from_1:
  "fst (submit_loop env in_dir out_dir trn_ids 1 [] fs) = futures_of env in_dir out_dir trn_ids"
proof -
  have "(nth_task in_dir out_dir trn_ids k)\<lparr>t_index := 1 + int k\<rparr> =
      nth_task in_dir out_dir trn_ids k" for k
    by (simp add: nth_task_def)
  then show ?thesis
    by (simp add: submit_loop_futures futures_of_def)
qed

lemma build_from_path_collect:
  assumes "0 < num_workers"
    and "parse_trn env (path_join in_dir [lit ''ProsodyLabeling'', lit ''000001-010000.txt''])
           = Inr trn_ids"
  shows "build_from_path env in_dir out_dir num_workers tqdm fs =
           (collect (tqdm (futures_of env in_dir out_dir trn_ids)),
            snd (submit_loop env in_dir out_dir trn_ids 1 [] fs))"
proof -
  obtain futures fs' where sl: "submit_loop env in_dir out_dir trn_ids 1 [] fs = (futures, fs')"
    by (cases "submit_loop env in_dir out_dir trn_ids 1 [] fs")
  have "futures = futures_of env in_dir out_dir trn_ids"
    using submit_loop_from_1 [of env in_dir out_dir trn_ids fs] sl by simp
  then show ?thesis using assms sl by (simp add: build_from_path_def Let_def)
qed

lemma futures_of_nth:
  "k < length trn_ids \<Longrightarrow>
   futures_of env in_dir out_dir trn_ids ! k =
     \<lparr>fut_task = nth_task in_dir out_dir trn_ids k,
      fut_result = unit_outcome env (nth_task in_dir out_dir trn_ids k)\<rparr>"
  by (simp add: futures_of_def)

lemma futures_of_length: "length (futures_of env in_dir out_dir trn_ids) = length trn_ids"
  by (simp add: futures_of_def)

lemma map_filter_map:
  "List.map_filter f (map g xs) = List.map_filter (\<lambda>x. f (g x)) xs"
  by (induction xs) (simp_all add: List.map_filter_simps split: option.splits)

text \<open>
  C4. Once the transcription file is parsed, the loop of \<open>build_from_path\<close> makes one
  future for each parsed entry, in parse order, and the task of the \<open>k\<close>-th entry
  (counting from 0) has index \<open>k + 1\<close>, the wave file of its identifier and its
  pronunciation. The index does not depend on what any task returns, and no two tasks
  share an index.
\<close>
theorem sequential_indices:
  assumes "0 < num_workers"
    and "parse_trn env (path_join in_dir [lit ''ProsodyLabeling'', lit ''000001-010000.txt''])
           = Inr trn_ids"
  shows "\<exists>futures fs'.
           submit_loop env in_dir out_dir trn_ids 1 [] fs = (futures, fs') \<and>
           build_from_path env in_dir out_dir num_workers tqdm fs = (collect (tqdm futures), fs') \<and>
           length futures = length trn_ids \<and>
           (\<forall>k<length trn_ids.
              fut_task (futures ! k) =
                \<lparr>t_out_dir = out_dir, t_index = int k + 1,
                 t_wav_file = path_join in_dir [lit ''Wave'', fst (trn_ids ! k) @ lit ''.wav''],
                 t_pinyin = snd (trn_ids ! k)\<rparr> \<and>
              fut_result (futures ! k) =
                fst (process_utterance env out_dir (int k + 1)
                       (path_join in_dir [lit ''Wave'', fst (trn_ids ! k) @ lit ''.wav''])
                       (snd (trn_ids ! k)) Map.empty)) \<and>
           distinct (map (\<lambda>f. t_index (fut_task f)) futures)"
proof -
  let ?futures = "futures_of env in_dir out_dir trn_ids"
  let ?fs' = "snd (submit_loop env in_dir out_dir trn_ids 1 [] fs)"
  have sl: "submit_loop env in_dir out_dir trn_ids 1 [] fs = (?futures, ?fs')"
    using submit_loop_from_1 [of env in_dir out_dir trn_ids fs]
    by (cases "submit_loop env in_dir out_dir trn_ids 1 [] fs") simp
  have b: "build_from_path env in_dir out_dir num_workers tqdm fs = (collect (tqdm ?futures), ?fs')"
    by (rule build_from_path_collect [OF assms])
  have n: "\<forall>k<length trn_ids.
      fut_task (?futures ! k) =
        \<lparr>t_out_dir = out_dir, t_index = int k + 1,
         t_wav_file = path_join in_dir [lit ''Wave'', fst (trn_ids ! k) @ lit ''.wav''],
         t_pinyin = snd (trn_ids ! k)\<rparr> \<and>
      fut_result (?futures ! k) =
        fst (process_utterance env out_dir (int k + 1)
               (path_join in_dir [lit ''Wave'', fst (trn_ids ! k) @ lit ''.wav''])
               (snd (trn_ids ! k)) Map.empty)"
    by (simp add: futures_of_nth nth_task_def unit_outcome_def)
  have "map (\<lambda>f. t_index (fut_task f)) ?futures = map (\<lambda>k. int k + 1) [0..<length trn_ids]"
    by (simp add: futures_of_def nth_task_def)
  moreover have "distinct (map (\<lambda>k. int k + 1) [0..<length trn_ids])"
    by (simp add: distinct_map inj_on_def)
  ultimately have d: "distinct (map (\<lambda>f. t_index (fut_task f)) ?futures)" by simp
  show ?thesis using sl b n d futures_of_length [of env in_dir out_dir trn_ids] by blast
qed

text \<open>
  C3. When no unit raises and \<open>tqdm\<close> hands the futures on as they are (as the default
  does), \<open>build_from_path\<close> returns the records of the units that did not return the
  skip sentinel, in submission order, which is the order of the parsed transcription
  file.
\<close>
theorem returned_records:
  assumes "0 < num_workers"
    and "parse_trn env (path_join in_dir [lit ''ProsodyLabeling'', lit ''000001-010000.txt''])
           = Inr trn_ids"
    and tq: "\<forall>futs. tqdm futs = futs"
    and ok: "\<forall>k<length trn_ids. \<exists>r. unit_outcome env (nth_task in_dir out_dir trn_ids k) = Inr r"
  shows "fst (build_from_path env in_dir out_dir num_workers tqdm fs) =
           Inr (List.map_filter
                  (\<lambda>k. case unit_outcome env (nth_task in_dir out_dir trn_ids k) of
                          Inr r \<Rightarrow> r | Inl e \<Rightarrow> None)
                  [0..<length trn_ids])"
proof -
  have "\<forall>f \<in> set (futures_of env in_dir out_dir trn_ids). \<exists>r. fut_result f = Inr r"
    using ok by (auto simp: futures_of_def)
  then have "collect (futures_of env in_dir out_dir trn_ids) =
      Inr (List.map_filter (\<lambda>f. case fut_result f of Inr r \<Rightarrow> r | Inl e \<Rightarrow> None)
             (futures_of env in_dir out_dir trn_ids))"
    by (rule collect_ok)
  also have "\<dots> = Inr (List.map_filter
                  (\<lambda>k. case unit_outcome env (nth_task in_dir out_dir trn_ids k) of
                          Inr r \<Rightarrow> r | Inl e \<Rightarrow> None)
                  [0..<length trn_ids])"
    by (simp add: futures_of_def map_filter_map)
  finally show ?thesis
    using build_from_path_collect [OF assms(1,2), of out_dir tqdm fs] tq by simp
qed


lemma demo_trn_file:
  "path_join (lit ''in'') [lit ''ProsodyLabeling'', lit ''000001-010000.txt'']
     = lit ''in/ProsodyLabeling/000001-010000.txt''"
  by (simp add: path_join_def join_step_def lit_def)

lemma demo_parse:
  "parse_trn (demo_env demo_text m)
       (path_join (lit ''in'') [lit ''ProsodyLabeling'', lit ''000001-010000.txt''])
     = Inr [(lit ''000003'', lit ''ka2 er2''), (lit ''000001'', lit ''pu3'')]"
proof -
  have "parse_trn_body demo_text =
      Inr (map trn_entry [(lit ''000003'' @ [9] @ lit ''x#2'', 9 # lit ''ka2 er2''),
                          (lit ''000001'' @ [9] @ lit ''y'', 9 # lit ''pu3'')] @ [])"
    unfolding demo_text_def
    using body_text [of "[(lit ''000003'' @ [9] @ lit ''x#2'', 9 # lit ''ka2 er2''),
                          (lit ''000001'' @ [9] @ lit ''y'', 9 # lit ''pu3'')]" "[]" "[]"] body_Nil
    by (simp add: lit_def strip_def isspace_def)
  then show ?thesis
    unfolding demo_trn_file
    by (simp add: parse_trn_def demo_env_def trn_entry_def lit_def strip_def isspace_def)
qed


lemma demo_wav_file:
  "path_join (lit ''in'') [lit ''Wave'', lit ''000001'' @ lit ''.wav''] = lit ''in/Wave/000001.wav''"
  "path_join (lit ''in'') [lit ''Wave'', lit ''000002'' @ lit ''.wav''] = lit ''in/Wave/000002.wav''"
  "path_join (lit ''in'') [lit ''Wave'', lit ''000003'' @ lit ''.wav''] = lit ''in/Wave/000003.wav''"
  by (simp_all add: path_join_def join_step_def lit_def)

lemma demo_unit_kept:
  "fst (process_utterance (demo_env t 2) out_dir i (lit ''in/Wave/000001.wav'') py fs)
     = Inr (Some (spectrogram_filename i, mel_filename i, 2, py))"
proof -
  have l: "load_wav (demo_env t 2) (lit ''in/Wave/000001.wav'') = Inr [3, -4]"
    by (simp add: demo_env_def lit_def)
  have tr: "trim_silence (demo_env t 2) [0, -1] = Inr [0, -1]"
    by (simp add: demo_env_def)
  have s: "spectrogram (demo_env t 2) [0, -1] = Inr (1025, 2)"
    by (simp add: demo_env_def)
  have g: "getitem (np_shape (demo_env t 2) (astype_float32 (demo_env t 2) (1025, 2))) 1 = Inr 2"
    by (simp add: demo_env_def getitem_def)
  show ?thesis
    unfolding process_utterance_frames [OF l demo_rescale tr s g]
    by (simp add: demo_env_def)
qed

lemma demo_unit_skipped:
  "fst (process_utterance (demo_env t 2) out_dir i (lit ''in/Wave/000003.wav'') py fs) = Inr None"
proof -
  have l: "load_wav (demo_env t 2) (lit ''in/Wave/000003.wav'') = Inr [0, 0, 0]"
    by (simp add: demo_env_def lit_def)
  have r: "rescale (demo_env t 2) [0, 0, 0] = Inr [0, 0, 0]"
    by (simp add: rescale_def demo_env_def)
  have tr: "trim_silence (demo_env t 2) [0, 0, 0] = Inr [0, 0, 0]"
    by (simp add: demo_env_def)
  have s: "spectrogram (demo_env t 2) [0, 0, 0] = Inr (1025, 3)"
    by (simp add: demo_env_def)
  have g: "getitem (np_shape (demo_env t 2) (astype_float32 (demo_env t 2) (1025, 3))) 1 = Inr 3"
    by (simp add: demo_env_def getitem_def)
  show ?thesis
    unfolding process_utterance_frames [OF l r tr s g]
    by (simp add: demo_env_def)
qed



theorem sequential_indices_witness:
  "map (\<lambda>f. t_index (fut_task f))
       (fst (submit_loop (demo_env demo_text 2) (lit ''in'') (lit ''out'')
               [(lit ''000003'', lit ''ka2 er2''), (lit ''000001'', lit ''pu3'')] 1 [] Map.empty))
     = [1, 2]"
proof -
  have nw: "(0::int) < 1" by simp
  from sequential_indices [OF nw demo_parse, of 2 "lit ''out''" Map.empty "\<lambda>x. x"]
  obtain futures fs' where
    sl: "submit_loop (demo_env demo_text 2) (lit ''in'') (lit ''out'')
           [(lit ''000003'', lit ''ka2 er2''), (lit ''000001'', lit ''pu3'')] 1 [] Map.empty
         = (futures, fs')"
    and len: "length futures = length [(lit ''000003'', lit ''ka2 er2''), (lit ''000001'', lit ''pu3'')]"
    and nth: "\<forall>k<length [(lit ''000003'', lit ''ka2 er2''), (lit ''000001'', lit ''pu3'')].
        fut_task (futures ! k) =
          \<lparr>t_out_dir = lit ''out'', t_index = int k + 1,
           t_wav_file = path_join (lit ''in'')
             [lit ''Wave'',
              fst ([(lit ''000003'', lit ''ka2 er2''), (lit ''000001'', lit ''pu3'')] ! k) @ lit ''.wav''],
           t_pinyin = snd ([(lit ''000003'', lit ''ka2 er2''), (lit ''000001'', lit ''pu3'')] ! k)\<rparr> \<and>
        fut_result (futures ! k) =
          fst (process_utterance (demo_env demo_text 2) (lit ''out'') (int k + 1)
                 (path_join (lit ''in'')
                    [lit ''Wave'',
                     fst ([(lit ''000003'', lit ''ka2 er2''), (lit ''000001'', lit ''pu3'')] ! k) @ lit ''.wav''])
                 (snd ([(lit ''000003'', lit ''ka2 er2''), (lit ''000001'', lit ''pu3'')] ! k)) Map.empty)"
    by blast
  from len obtain a b where ab: "futures = [a, b]"
    by (cases futures; cases "tl futures") auto
  have "t_index (fut_task (futures ! 0)) = int 0 + 1" using nth by simp
  moreover have "t_index (fut_task (futures ! 1)) = int 1 + 1" using nth by simp
  ultimately show ?thesis using sl ab by simp
qed

theorem returned_records_witness:
  "fst (build_from_path (demo_env demo_text 2) (lit ''in'') (lit ''out'') 1 (\<lambda>x. x) Map.empty)
     = Inr [(spectrogram_filename 2, mel_filename 2, 2, lit ''pu3'')]"
proof -
  have nw: "(0::int) < 1" by simp
  have tq: "\<forall>futs :: future list. (\<lambda>x. x) futs = futs" by simp
  have u0: "unit_outcome (demo_env demo_text 2)
      (nth_task (lit ''in'') (lit ''out'')
         [(lit ''000003'', lit ''ka2 er2''), (lit ''000001'', lit ''pu3'')] 0) = Inr None"
    by (simp add: unit_outcome_def nth_task_def demo_wav_file demo_unit_skipped)
  have u1: "unit_outcome (demo_env demo_text 2)
      (nth_task (lit ''in'') (lit ''out'')
         [(lit ''000003'', lit ''ka2 er2''), (lit ''000001'', lit ''pu3'')] 1)
      = Inr (Some (spectrogram_filename 2, mel_filename 2, 2, lit ''pu3''))"
    by (simp add: unit_outcome_def nth_task_def demo_wav_file demo_unit_kept)
  have ok: "\<forall>k<length [(lit ''000003'', lit ''ka2 er2''), (lit ''000001'', lit ''pu3'')].
      \<exists>r. unit_outcome (demo_env demo_text 2)
             (nth_task (lit ''in'') (lit ''out'')
                [(lit ''000003'', lit ''ka2 er2''), (lit ''000001'', lit ''pu3'')] k) = Inr r"
  proof (intro allI impI)
    fix k assume "k < length [(lit ''000003'', lit ''ka2 er2''), (lit ''000001'', lit ''pu3'')]"
    then have "k = 0 \<or> k = 1" by auto
    then show "\<exists>r. unit_outcome (demo_env demo_text 2)
             (nth_task (lit ''in'') (lit ''out'')
                [(lit ''000003'', lit ''ka2 er2''), (lit ''000001'', lit ''pu3'')] k) = Inr r"
      using u0 u1 by auto
  qed
  have up: "[0..<length [(lit ''000003'', lit ''ka2 er2''), (lit ''000001'', lit ''pu3'')]] = [0, 1]"
    by (simp add: upt_rec)
  have u1': "unit_outcome (demo_env demo_text 2)
      (nth_task (lit ''in'') (lit ''out'')
         [(lit ''000003'', lit ''ka2 er2''), (lit ''000001'', lit ''pu3'')] (Suc 0))
      = Inr (Some (spectrogram_filename 2, mel_filename 2, 2, lit ''pu3''))"
    using u1 by simp
  show ?thesis
    using returned_records [OF nw demo_parse tq ok, of Map.empty]
    unfolding up by (simp add: List.map_filter_simps u0 u1')
qed


end
